theory Spec2Isabelle
  imports Complex_Main
begin

section \<open>Text and numbers\<close>

text \<open>
  A JavaScript string is a sequence of UTF-16 code units. The model writes it as a
  \<^typ>\<open>string\<close> with one \<^typ>\<open>char\<close> per code unit, which covers the code units
  below 256 (Latin-1); every literal of the sources lies in that range (the cedilla of
  the third service name is code unit 231). Numbers that the sources use as row
  identifiers, prices and counters are modelled as \<^typ>\<open>int\<close>: the fractional and
  non-finite values of a JavaScript number are outside the model.
\<close>

definition isUpper :: "char \<Rightarrow> bool" where
  "isUpper c =
     (let n = (of_char c :: nat)
      in (65 \<le> n \<and> n \<le> 90) \<or> (192 \<le> n \<and> n \<le> 222 \<and> n \<noteq> 215))"

text \<open>
  \<open>String.prototype.toLowerCase\<close> on Latin-1: the capitals \<open>A\<close> to \<open>Z\<close> and the
  accented capitals 192 to 222 (without the multiplication sign 215) move up by 32; every
  other code unit stays.
\<close>

definition lower_char :: "char \<Rightarrow> char" where
  "lower_char c = (if isUpper c then char_of ((of_char c :: nat) + 32) else c)"

definition toLowerCase :: "string \<Rightarrow> string" where
  "toLowerCase s = map lower_char s"

text \<open>Decimal digits of a natural number, most significant first (\<open>Number.prototype.toString\<close>
  for a non-negative integer).\<close>

fun digits :: "nat \<Rightarrow> string" where
  "digits n =
     (if n < 10 then [char_of (48 + n)]
      else digits (n div 10) @ [char_of (48 + n mod 10)])"

declare digits.simps [simp del]

definition toString :: "int \<Rightarrow> string" where
  "toString i = (if i < 0 then ''-'' @ digits (nat (- i)) else digits (nat i))"

text \<open>
  \<open>Number.prototype.toFixed(2)\<close> for a value below \<open>10\<^sup>2\<^sup>1\<close> in size: with \<open>n\<close> the
  integer for which \<open>n / 100\<close> is nearest to the value (the larger one on a tie), the
  digits of \<open>n\<close>, padded to three, with the point before the last two; a minus sign in
  front of a negative value. Numbers are exact rationals here; the quotient
  \<open>2500 / 100\<close> of the claim is exact in double precision as well.
\<close>

definition toFixed2 :: "rat \<Rightarrow> string" where
  "toFixed2 x =
     (let s = (if x < 0 then ''-'' else '''');
          y = \<bar>x\<bar>;
          n = nat \<lfloor>y * 100 + 1 / 2\<rfloor>;
          m = digits n;
          m' = replicate (3 - length m) CHR ''0'' @ m;
          k = length m'
      in s @ take (k - 2) m' @ ''.'' @ drop (k - 2) m')"

text \<open>
  \<open>parseInt(string)\<close> without a radix: leading white space is skipped, one sign is
  read, a \<open>0x\<close> or \<open>0X\<close> prefix selects radix 16, and the longest run of digits of the
  radix gives the value. \<open>None\<close> is \<open>NaN\<close> (no digit). The result is exact; the
  rounding of values beyond \<open>2\<^sup>5\<^sup>3\<close> to a double is not modelled.
\<close>

definition isWhiteSpace :: "char \<Rightarrow> bool" where
  "isWhiteSpace c = ((of_char c :: nat) \<in> {9, 10, 11, 12, 13, 32, 160})"

definition digitValue :: "char \<Rightarrow> nat option" where
  "digitValue c =
     (let n = (of_char c :: nat)
      in if 48 \<le> n \<and> n \<le> 57 then Some (n - 48)
         else if 97 \<le> n \<and> n \<le> 122 then Some (n - 87)
         else if 65 \<le> n \<and> n \<le> 90 then Some (n - 55)
         else None)"

definition isRadixDigit :: "nat \<Rightarrow> char \<Rightarrow> bool" where
  "isRadixDigit R c = (case digitValue c of None \<Rightarrow> False | Some v \<Rightarrow> v < R)"

definition parseInt :: "string \<Rightarrow> int option" where
  "parseInt inputString =
     (let S = dropWhile isWhiteSpace inputString;
          sign = (if S \<noteq> [] \<and> hd S = CHR ''-'' then - 1 else (1 :: int));
          S1 = (if S \<noteq> [] \<and> (hd S = CHR ''+'' \<or> hd S = CHR ''-'') then tl S else S);
          hex = (2 \<le> length S1 \<and> (take 2 S1 = ''0x'' \<or> take 2 S1 = ''0X''));
          R = (if hex then 16 else 10);
          S2 = (if hex then drop 2 S1 else S1);
          Z = takeWhile (isRadixDigit R) S2
      in if Z = [] then None
         else Some (sign * int (foldl (\<lambda>acc c. acc * R
                                      + (case digitValue c of None \<Rightarrow> 0 | Some v \<Rightarrow> v)) 0 Z)))"

text \<open>\<open>String.prototype.startsWith\<close>.\<close>

definition startsWith :: "string \<Rightarrow> string \<Rightarrow> bool" where
  "startsWith s p = (take (length p) s = p)"

text \<open>\<open>x || d\<close> on an optional string: \<open>null\<close>, \<open>undefined\<close> and the empty string are
  falsy.\<close>

definition orElse :: "string option \<Rightarrow> string \<Rightarrow> string" where
  "orElse x d = (case x of None \<Rightarrow> d | Some s \<Rightarrow> if s = [] then d else s)"


section \<open>The service catalogue (server/products.ts)\<close>

record service =
  svc_id :: string
  svc_name :: string
  svc_description :: string
  svc_price :: int
  svc_currency :: string
  svc_duration :: int

definition HAIRCUT :: service where
  "HAIRCUT =
     \<lparr>svc_id = ''haircut'', svc_name = ''Corte de Cabelo'',
      svc_description = ''Corte de cabelo profissional'',
      svc_price = 2500, svc_currency = ''usd'', svc_duration = 30\<rparr>"

definition HAIR_AND_EYEBROW :: service where
  "HAIR_AND_EYEBROW =
     \<lparr>svc_id = ''hair_eyebrow'', svc_name = ''Cabelo e Sobrancelha'',
      svc_description =
        ''Corte de cabelo com apara'' @ [CHR 0xE7, CHR 0xE3] @ ''o de sobrancelha'',
      svc_price = 3000, svc_currency = ''usd'', svc_duration = 45\<rparr>"

definition FULL_SERVICE :: service where
  "FULL_SERVICE =
     \<lparr>svc_id = ''full_service'',
      svc_name = ''Servi'' @ [CHR 0xE7] @ ''o Completo'',
      svc_description =
        ''Corte de cabelo, apara'' @ [CHR 0xE7, CHR 0xE3] @ ''o de sobrancelha e barba'',
      svc_price = 4000, svc_currency = ''usd'', svc_duration = 60\<rparr>"

text \<open>\<open>Object.values(BARBERSHOP_SERVICES)\<close>, in the order of the object's keys.\<close>

definition getAllServices :: "service list" where
  "getAllServices = [HAIRCUT, HAIR_AND_EYEBROW, FULL_SERVICE]"

definition getServiceById :: "string \<Rightarrow> service option" where
  "getServiceById i = find (\<lambda>service. svc_id service = i) getAllServices"

definition getServiceByName :: "string \<Rightarrow> service option" where
  "getServiceByName name =
     (let normalized = toLowerCase name
      in find (\<lambda>service. toLowerCase (svc_name service) = normalized
                         \<or> svc_id service = normalized) getAllServices)"

definition formatPrice :: "int \<Rightarrow> string" where
  "formatPrice priceInCents = ''$'' @ toFixed2 (of_int priceInCents / 100)"

text \<open>
  Two characters are the same letter when they are equal or one is the capital of the
  other (the capital of a letter lies 32 code units below it); two strings are the same
  text in some letter case when they agree letter by letter.
\<close>

definition same_letter :: "char \<Rightarrow> char \<Rightarrow> bool" where
  "same_letter c d =
     (c = d \<or> (isUpper c \<and> (of_char d :: nat) = of_char c + 32)
            \<or> (isUpper d \<and> (of_char c :: nat) = of_char d + 32))"

definition letter_case_of :: "string \<Rightarrow> string \<Rightarrow> bool" where
  "letter_case_of s t = list_all2 same_letter s t"


section \<open>The tables (drizzle/schema.ts)\<close>

text \<open>
  One record per table that the request handlers read or write, one field per column;
  the fields carry the initial of their table, since record fields share one name space
  (\<open>a_status\<close> is \<open>appointments.status\<close>). A column that may hold \<open>NULL\<close> is an
  \<open>option\<close>; a time stamp is a natural number (the clock of the database server).
\<close>

datatype user_role = UserRole | AdminRole

datatype conversation_status = ConversationActive | ConversationCompleted | ConversationArchived

datatype message_role = MessageUser | MessageAssistant

datatype appointment_status = Confirmed | Pending | Completed | Cancelled

datatype payment_status = PaymentPending | PaymentCompleted | PaymentFailed | PaymentRefunded

datatype quality = Excellent | Good | Acceptable | Poor

record user =
  u_id :: int
  u_openId :: string
  u_name :: "string option"
  u_email :: "string option"
  u_loginMethod :: "string option"
  u_role :: user_role
  u_stripeCustomerId :: "string option"
  u_createdAt :: nat
  u_updatedAt :: nat
  u_lastSignedIn :: nat

record conversation =
  c_id :: int
  c_userId :: int
  c_title :: "string option"
  c_status :: "conversation_status option"
  c_createdAt :: nat
  c_updatedAt :: nat

record message =
  m_id :: int
  m_conversationId :: int
  m_role :: message_role
  m_content :: string
  m_metadata :: "string option"
  m_createdAt :: nat

record appointment =
  a_id :: int
  a_userId :: int
  a_conversationId :: "int option"
  a_googleCalendarEventId :: "string option"
  a_barberName :: "string option"
  a_service :: string
  a_duration :: int
  a_scheduledAt :: nat
  a_status :: "appointment_status option"
  a_paymentStatus :: "payment_status option"
  a_stripePaymentIntentId :: "string option"
  a_stripeCheckoutSessionId :: "string option"
  a_priceInCents :: "int option"
  a_notes :: "string option"
  a_createdAt :: nat
  a_updatedAt :: nat

record training_example =
  t_id :: int
  t_createdByUserId :: int
  t_userMessage :: string
  t_assistantResponse :: string
  t_category :: string
  t_quality :: "quality option"
  t_active :: "int option"
  t_createdAt :: nat
  t_updatedAt :: nat

text \<open>
  The database behind the drizzle handle: the rows of each table in storage order, and
  \<open>db_fault\<close>, the error that the connection raises on a statement while the server cannot
  be reached (\<open>None\<close> when statements go through).
\<close>

record db =
  db_users :: "user list"
  db_conversations :: "conversation list"
  db_messages :: "message list"
  db_appointments :: "appointment list"
  db_trainingExamples :: "training_example list"
  db_fault :: "string option"

text \<open>What \<open>getDb()\<close> resolves to: the handle, or \<open>null\<close> when no database is configured.\<close>

type_synonym store = "db option"

datatype error = Error string | TRPCError string


section \<open>Statements (the drizzle calls of the sources)\<close>

text \<open>A statement sent over the connection yields its result, or raises the fault.\<close>

definition execute :: "db \<Rightarrow> 'r \<Rightarrow> error + 'r" where
  "execute d r = (case db_fault d of Some msg \<Rightarrow> Inl (Error msg) | None \<Rightarrow> Inr r)"

text \<open>
  The argument of \<open>.set(...)\<close> on the appointments table, for the columns that the
  sources set; \<open>None\<close> is a key that is absent or \<open>undefined\<close>, which drizzle leaves out of
  the statement.
\<close>

record appointment_set =
  set_status :: "appointment_status option"
  set_paymentStatus :: "payment_status option"
  set_stripePaymentIntentId :: "string option"
  set_stripeCheckoutSessionId :: "string option"
  set_priceInCents :: "int option"
  set_scheduledAt :: "nat option"

definition no_values :: appointment_set where
  "no_values =
     \<lparr>set_status = None, set_paymentStatus = None, set_stripePaymentIntentId = None,
      set_stripeCheckoutSessionId = None, set_priceInCents = None, set_scheduledAt = None\<rparr>"

definition set_columns :: "appointment_set \<Rightarrow> appointment \<Rightarrow> appointment" where
  "set_columns p a =
     a\<lparr>a_status := (case set_status p of None \<Rightarrow> a_status a | Some v \<Rightarrow> Some v),
       a_paymentStatus :=
         (case set_paymentStatus p of None \<Rightarrow> a_paymentStatus a | Some v \<Rightarrow> Some v),
       a_stripePaymentIntentId :=
         (case set_stripePaymentIntentId p of
            None \<Rightarrow> a_stripePaymentIntentId a | Some v \<Rightarrow> Some v),
       a_stripeCheckoutSessionId :=
         (case set_stripeCheckoutSessionId p of
            None \<Rightarrow> a_stripeCheckoutSessionId a | Some v \<Rightarrow> Some v),
       a_priceInCents :=
         (case set_priceInCents p of None \<Rightarrow> a_priceInCents a | Some v \<Rightarrow> Some v),
       a_scheduledAt := (case set_scheduledAt p of None \<Rightarrow> a_scheduledAt a | Some v \<Rightarrow> v)\<rparr>"

text \<open>
  \<open>updatedAt\<close> is declared \<open>onUpdateNow()\<close> (\<open>ON UPDATE CURRENT_TIMESTAMP\<close>): the server
  stamps a row when an update changes the value of another of its columns, and leaves
  the stamp when every column is set to the value it has.
\<close>

definition onUpdateNow :: "nat \<Rightarrow> appointment \<Rightarrow> appointment \<Rightarrow> appointment" where
  "onUpdateNow now old new = (if new = old then old else new\<lparr>a_updatedAt := now\<rparr>)"

text \<open>
  \<open>db.update(appointments).set(p).where(eq(appointments.id, n))\<close> at server time \<open>now\<close>.
  drizzle refuses a \<open>set\<close> without a value before anything is sent.
\<close>

definition update_appointments ::
    "nat \<Rightarrow> appointment_set \<Rightarrow> int \<Rightarrow> db \<Rightarrow> error + db" where
  "update_appointments now p n d =
     (if p = no_values then Inl (Error ''No values to set'')
      else execute d
             (d\<lparr>db_appointments :=
                  map (\<lambda>a. if a_id a = n then onUpdateNow now a (set_columns p a) else a)
                    (db_appointments d)\<rparr>))"

text \<open>\<open>db.select().from(appointments).where(eq(appointments.id, n)).limit(1)\<close>.\<close>

definition select_appointment :: "int \<Rightarrow> db \<Rightarrow> error + appointment list" where
  "select_appointment n d = execute d (take 1 (filter (\<lambda>a. a_id a = n) (db_appointments d)))"

text \<open>\<open>db.update(users).set({ stripeCustomerId }).where(eq(users.id, n))\<close>.\<close>

definition update_user_stripeCustomerId :: "nat \<Rightarrow> string \<Rightarrow> int \<Rightarrow> db \<Rightarrow> error + db" where
  "update_user_stripeCustomerId now customer n d =
     execute d
       (d\<lparr>db_users :=
            map (\<lambda>u. if u_id u = n \<and> u_stripeCustomerId u \<noteq> Some customer
                      then u\<lparr>u_stripeCustomerId := Some customer, u_updatedAt := now\<rparr>
                      else u)
              (db_users d)\<rparr>)"

text \<open>
  The identifier that \<open>AUTO_INCREMENT\<close> gives the next row of a table: one more than the
  largest identifier in it.
\<close>

definition insertId :: "int list \<Rightarrow> int" where
  "insertId ids = (if ids = [] then 1 else Max (set ids) + 1)"


section \<open>The webhook (server/stripe-webhook.ts)\<close>

text \<open>
  The object of an event, with the fields that the handlers read; the sources cast it
  to the session, payment intent or charge type without a check, so one record stands
  for all three and a field that the object lacks is \<open>None\<close>.
\<close>

record stripe_object =
  obj_id :: string
  client_reference_id :: "string option"
  metadata :: "(string \<times> string) list option"

record event =
  ev_id :: string
  ev_type :: string
  ev_object :: stripe_object

text \<open>\<open>object.metadata?.appointment_id\<close>.\<close>

definition metadata_appointment_id :: "stripe_object \<Rightarrow> string option" where
  "metadata_appointment_id obj =
     (case metadata obj of None \<Rightarrow> None | Some m \<Rightarrow> map_of m ''appointment_id'')"

text \<open>
  Each handler takes the store that \<open>getDb()\<close> resolves to and returns the store it
  leaves. The early returns of the sources and the \<open>catch\<close> around the update (which
  logs the error) return the store as it was; no path of a handler raises.
\<close>

definition handleCheckoutSessionCompleted :: "nat \<Rightarrow> stripe_object \<Rightarrow> store \<Rightarrow> store" where
  "handleCheckoutSessionCompleted now session st =
     (case st of
        None \<Rightarrow> st
      | Some d \<Rightarrow>
          (case parseInt (orElse (client_reference_id session) ''0'') of
             None \<Rightarrow> st
           | Some appointmentId \<Rightarrow>
               if appointmentId = 0 then st
               else (case update_appointments now
                            (no_values\<lparr>set_paymentStatus := Some PaymentCompleted,
                                        set_stripeCheckoutSessionId := Some (obj_id session),
                                        set_status := Some Confirmed\<rparr>)
                            appointmentId d of
                       Inl e \<Rightarrow> st
                     | Inr d' \<Rightarrow> Some d')))"

definition handlePaymentIntentSucceeded :: "nat \<Rightarrow> stripe_object \<Rightarrow> store \<Rightarrow> store" where
  "handlePaymentIntentSucceeded now paymentIntent st =
     (case st of
        None \<Rightarrow> st
      | Some d \<Rightarrow>
          (case parseInt (orElse (metadata_appointment_id paymentIntent) ''0'') of
             None \<Rightarrow> st
           | Some appointmentId \<Rightarrow>
               if appointmentId = 0 then st
               else (case update_appointments now
                            (no_values\<lparr>set_paymentStatus := Some PaymentCompleted,
                                        set_stripePaymentIntentId := Some (obj_id paymentIntent),
                                        set_status := Some Confirmed\<rparr>)
                            appointmentId d of
                       Inl e \<Rightarrow> st
                     | Inr d' \<Rightarrow> Some d')))"

definition handlePaymentIntentFailed :: "nat \<Rightarrow> stripe_object \<Rightarrow> store \<Rightarrow> store" where
  "handlePaymentIntentFailed now paymentIntent st =
     (case st of
        None \<Rightarrow> st
      | Some d \<Rightarrow>
          (case parseInt (orElse (metadata_appointment_id paymentIntent) ''0'') of
             None \<Rightarrow> st
           | Some appointmentId \<Rightarrow>
               if appointmentId = 0 then st
               else (case update_appointments now
                            (no_values\<lparr>set_paymentStatus := Some PaymentFailed,
                                        set_stripePaymentIntentId := Some (obj_id paymentIntent)\<rparr>)
                            appointmentId d of
                       Inl e \<Rightarrow> st
                     | Inr d' \<Rightarrow> Some d')))"

definition handleChargeRefunded :: "nat \<Rightarrow> stripe_object \<Rightarrow> store \<Rightarrow> store" where
  "handleChargeRefunded now charge st =
     (case st of
        None \<Rightarrow> st
      | Some d \<Rightarrow>
          (case parseInt (orElse (metadata_appointment_id charge) ''0'') of
             None \<Rightarrow> st
           | Some appointmentId \<Rightarrow>
               if appointmentId = 0 then st
               else (case update_appointments now
                            (no_values\<lparr>set_paymentStatus := Some PaymentRefunded,
                                        set_status := Some Cancelled\<rparr>)
                            appointmentId d of
                       Inl e \<Rightarrow> st
                     | Inr d' \<Rightarrow> Some d')))"

text \<open>
  The request as the handler reads it: the \<open>stripe-signature\<close> header and the raw body.
  The response: the status code (200 unless \<open>res.status\<close> sets it) and the JSON sent.
\<close>

record request =
  stripe_signature :: "string option"
  body :: string

datatype json = ErrorJson string | VerifiedJson bool | ReceivedJson bool

record response =
  res_status :: nat
  res_json :: json

text \<open>
  The Stripe library is not part of the repository; the handlers take its calls as
  parameters. \<open>constructEvent body signature secret\<close> is
  \<open>stripe.webhooks.constructEvent\<close>: the verified event, or the message of the error it
  raises.
\<close>

type_synonym construct_event = "string \<Rightarrow> string \<Rightarrow> string \<Rightarrow> string + event"

text \<open>The \<open>switch\<close> on the event type.\<close>

definition dispatch :: "nat \<Rightarrow> event \<Rightarrow> store \<Rightarrow> store" where
  "dispatch now ev st =
     (if ev_type ev = ''checkout.session.completed''
        then handleCheckoutSessionCompleted now (ev_object ev) st
      else if ev_type ev = ''payment_intent.succeeded''
        then handlePaymentIntentSucceeded now (ev_object ev) st
      else if ev_type ev = ''payment_intent.payment_failed''
        then handlePaymentIntentFailed now (ev_object ev) st
      else if ev_type ev = ''charge.refunded''
        then handleChargeRefunded now (ev_object ev) st
      else st)"

text \<open>
  \<open>handleStripeWebhook\<close>: the response and the store after the request. Since no
  handler raises, the \<open>catch\<close> of the dispatch (status 500) has nothing to catch and the
  dispatch always reaches \<open>res.json({ received: true })\<close>.
\<close>

definition handleStripeWebhook ::
    "construct_event \<Rightarrow> string \<Rightarrow> nat \<Rightarrow> request \<Rightarrow> store \<Rightarrow> response \<times> store" where
  "handleStripeWebhook constructEvent webhookSecret now req st =
     (case stripe_signature req of
        None \<Rightarrow>
          (\<lparr>res_status = 400, res_json = ErrorJson ''Missing stripe-signature header''\<rparr>, st)
      | Some signature \<Rightarrow>
          if signature = []
          then (\<lparr>res_status = 400, res_json = ErrorJson ''Missing stripe-signature header''\<rparr>, st)
          else (case constructEvent (body req) signature webhookSecret of
                  Inl message \<Rightarrow>
                    (\<lparr>res_status = 400, res_json = ErrorJson (''Webhook Error: '' @ message)\<rparr>,
                     st)
                | Inr ev \<Rightarrow>
                    if startsWith (ev_id ev) ''evt_test_''
                    then (\<lparr>res_status = 200, res_json = VerifiedJson True\<rparr>, st)
                    else (\<lparr>res_status = 200, res_json = ReceivedJson True\<rparr>,
                          dispatch now ev st)))"


section \<open>Queries (server/db.ts)\<close>

text \<open>
  A read returns its rows (or the error raised); a write returns its result together
  with the store it leaves. \<open>ORDER BY\<close> is modelled by a stable sort; foreign keys are
  not modelled.
\<close>

definition getMessagesByConversationId :: "int \<Rightarrow> store \<Rightarrow> error + message list" where
  "getMessagesByConversationId conversationId st =
     (case st of
        None \<Rightarrow> Inr []
      | Some d \<Rightarrow>
          execute d
            (sort_key m_createdAt
               (filter (\<lambda>m. m_conversationId m = conversationId) (db_messages d))))"

definition getAllAppointments :: "store \<Rightarrow> error + appointment list" where
  "getAllAppointments st =
     (case st of
        None \<Rightarrow> Inr []
      | Some d \<Rightarrow> execute d (sort_key (\<lambda>a. - int (a_scheduledAt a)) (db_appointments d)))"

text \<open>The values of \<open>InsertAppointment\<close> that the router passes.\<close>

record insert_appointment =
  ia_userId :: int
  ia_service :: string
  ia_duration :: int
  ia_scheduledAt :: nat
  ia_barberName :: "string option"
  ia_notes :: "string option"

text \<open>The row that the insert stores: the columns without a value take their defaults.\<close>

definition new_appointment :: "nat \<Rightarrow> int \<Rightarrow> insert_appointment \<Rightarrow> appointment" where
  "new_appointment now i v =
     \<lparr>a_id = i, a_userId = ia_userId v, a_conversationId = None,
      a_googleCalendarEventId = None, a_barberName = ia_barberName v,
      a_service = ia_service v, a_duration = ia_duration v,
      a_scheduledAt = ia_scheduledAt v, a_status = Some Pending,
      a_paymentStatus = Some PaymentPending, a_stripePaymentIntentId = None,
      a_stripeCheckoutSessionId = None, a_priceInCents = None, a_notes = ia_notes v,
      a_createdAt = now, a_updatedAt = now\<rparr>"

definition createAppointment ::
    "nat \<Rightarrow> insert_appointment \<Rightarrow> store \<Rightarrow> (error + int) \<times> store" where
  "createAppointment now v st =
     (case st of
        None \<Rightarrow> (Inl (Error ''Database not available''), st)
      | Some d \<Rightarrow>
          (let i = insertId (map a_id (db_appointments d))
           in case execute d (d\<lparr>db_appointments := db_appointments d @ [new_appointment now i v]\<rparr>) of
                Inl e \<Rightarrow> (Inl e, st)
              | Inr d' \<Rightarrow> (Inr i, Some d')))"

definition updateAppointment ::
    "nat \<Rightarrow> int \<Rightarrow> appointment_set \<Rightarrow> store \<Rightarrow> (error + unit) \<times> store" where
  "updateAppointment now appointmentId v st =
     (case st of
        None \<Rightarrow> (Inl (Error ''Database not available''), st)
      | Some d \<Rightarrow>
          (case update_appointments now v appointmentId d of
             Inl e \<Rightarrow> (Inl e, st)
           | Inr d' \<Rightarrow> (Inr (), Some d')))"

definition getTrainingExamples ::
    "bool option \<Rightarrow> store \<Rightarrow> error + training_example list" where
  "getTrainingExamples active st =
     (case st of
        None \<Rightarrow> Inr []
      | Some d \<Rightarrow>
          (case active of
             Some b \<Rightarrow>
               execute d
                 (filter (\<lambda>x. t_active x = Some (if b then 1 else 0)) (db_trainingExamples d))
           | None \<Rightarrow> execute d (db_trainingExamples d)))"

record insert_training_example =
  it_createdByUserId :: int
  it_userMessage :: string
  it_assistantResponse :: string
  it_category :: string
  it_quality :: "quality option"

definition new_training_example ::
    "nat \<Rightarrow> int \<Rightarrow> insert_training_example \<Rightarrow> training_example" where
  "new_training_example now i v =
     \<lparr>t_id = i, t_createdByUserId = it_createdByUserId v, t_userMessage = it_userMessage v,
      t_assistantResponse = it_assistantResponse v, t_category = it_category v,
      t_quality = (case it_quality v of None \<Rightarrow> Some Good | Some q \<Rightarrow> Some q),
      t_active = Some 1, t_createdAt = now, t_updatedAt = now\<rparr>"

definition createTrainingExample ::
    "nat \<Rightarrow> insert_training_example \<Rightarrow> store \<Rightarrow> (error + int) \<times> store" where
  "createTrainingExample now v st =
     (case st of
        None \<Rightarrow> (Inl (Error ''Database not available''), st)
      | Some d \<Rightarrow>
          (let i = insertId (map t_id (db_trainingExamples d))
           in case execute d
                     (d\<lparr>db_trainingExamples :=
                          db_trainingExamples d @ [new_training_example now i v]\<rparr>) of
                Inl e \<Rightarrow> (Inl e, st)
              | Inr d' \<Rightarrow> (Inr i, Some d')))"

text \<open>\<open>updateTrainingExample(exampleId, { quality, active })\<close>; the router always gives
  \<open>active\<close> a value.\<close>

definition updateTrainingExample ::
    "nat \<Rightarrow> int \<Rightarrow> quality option \<Rightarrow> int \<Rightarrow> store \<Rightarrow> (error + unit) \<times> store" where
  "updateTrainingExample now exampleId q active st =
     (case st of
        None \<Rightarrow> (Inl (Error ''Database not available''), st)
      | Some d \<Rightarrow>
          (case execute d
                  (d\<lparr>db_trainingExamples :=
                       map (\<lambda>x. if t_id x = exampleId
                                 then (let x' = x\<lparr>t_quality := (case q of None \<Rightarrow> t_quality x
                                                                  | Some v \<Rightarrow> Some v),
                                                    t_active := Some active\<rparr>
                                       in if x' = x then x else x'\<lparr>t_updatedAt := now\<rparr>)
                                 else x)
                         (db_trainingExamples d)\<rparr>) of
             Inl e \<Rightarrow> (Inl e, st)
           | Inr d' \<Rightarrow> (Inr (), Some d')))"


section \<open>The procedures (server/routers.ts)\<close>

text \<open>
  Every procedure modelled here is a \<open>protectedProcedure\<close>: it runs for a signed-in
  caller, whose user record is in the context. \<open>ctx_origin\<close> is the \<open>origin\<close> header of
  the request.
\<close>

record ctx =
  ctx_user :: user
  ctx_origin :: "string option"

definition chat_getMessages :: "ctx \<Rightarrow> int \<Rightarrow> store \<Rightarrow> error + message list" where
  "chat_getMessages c conversationId st = getMessagesByConversationId conversationId st"

definition appointments_listAll :: "ctx \<Rightarrow> store \<Rightarrow> error + appointment list" where
  "appointments_listAll c st =
     (if u_role (ctx_user c) \<noteq> AdminRole then Inl (TRPCError ''FORBIDDEN'')
      else getAllAppointments st)"

definition appointments_create ::
    "nat \<Rightarrow> ctx \<Rightarrow> string \<Rightarrow> int \<Rightarrow> nat \<Rightarrow> string option \<Rightarrow> string option \<Rightarrow> store
      \<Rightarrow> (error + int) \<times> store" where
  "appointments_create now c service duration scheduledAt barberName notes st =
     createAppointment now
       \<lparr>ia_userId = u_id (ctx_user c), ia_service = service, ia_duration = duration,
        ia_scheduledAt = scheduledAt, ia_barberName = barberName, ia_notes = notes\<rparr> st"

text \<open>\<open>appointments.update\<close>; \<open>True\<close> is the reply \<open>{ success: true }\<close>.\<close>

definition appointments_update ::
    "nat \<Rightarrow> ctx \<Rightarrow> int \<Rightarrow> appointment_status option \<Rightarrow> nat option \<Rightarrow> store
      \<Rightarrow> (error + bool) \<times> store" where
  "appointments_update now c appointmentId status scheduledAt st =
     (case updateAppointment now appointmentId
             (no_values\<lparr>set_status := status, set_scheduledAt := scheduledAt\<rparr>) st of
        (Inl e, st') \<Rightarrow> (Inl e, st')
      | (Inr u, st') \<Rightarrow> (Inr True, st'))"

definition training_getExamples :: "ctx \<Rightarrow> store \<Rightarrow> error + training_example list" where
  "training_getExamples c st =
     (if u_role (ctx_user c) \<noteq> AdminRole then Inl (TRPCError ''FORBIDDEN'')
      else getTrainingExamples None st)"

definition training_createExample ::
    "nat \<Rightarrow> ctx \<Rightarrow> string \<Rightarrow> string \<Rightarrow> string \<Rightarrow> quality option \<Rightarrow> store
      \<Rightarrow> (error + int) \<times> store" where
  "training_createExample now c userMessage assistantResponse category q st =
     (if u_role (ctx_user c) \<noteq> AdminRole then (Inl (TRPCError ''FORBIDDEN''), st)
      else createTrainingExample now
             \<lparr>it_createdByUserId = u_id (ctx_user c), it_userMessage = userMessage,
              it_assistantResponse = assistantResponse, it_category = category,
              it_quality = q\<rparr> st)"

text \<open>\<open>active: input.active ? 1 : 0\<close>: an absent \<open>active\<close> counts as false.\<close>

definition training_updateExample ::
    "nat \<Rightarrow> ctx \<Rightarrow> int \<Rightarrow> quality option \<Rightarrow> bool option \<Rightarrow> store
      \<Rightarrow> (error + bool) \<times> store" where
  "training_updateExample now c exampleId q active st =
     (if u_role (ctx_user c) \<noteq> AdminRole then (Inl (TRPCError ''FORBIDDEN''), st)
      else (case updateTrainingExample now exampleId q
                   (if active = Some True then 1 else 0) st of
              (Inl e, st') \<Rightarrow> (Inl e, st')
            | (Inr u, st') \<Rightarrow> (Inr True, st')))"


section \<open>The payment procedures (server/stripe-router.ts)\<close>

text \<open>
  The two calls of the Stripe library that the router makes, as parameters: each
  returns what the router reads of the created object (the customer's id; the session's
  id and url), or the error raised.
\<close>

record customer_create_params =
  cp_email :: "string option"
  cp_name :: "string option"
  cp_metadata :: "(string \<times> string) list"

record line_item =
  li_currency :: string
  li_product_name :: string
  li_product_description :: string
  li_unit_amount :: int
  li_quantity :: int

record session_create_params =
  sp_customer :: string
  sp_payment_method_types :: "string list"
  sp_line_items :: "line_item list"
  sp_mode :: string
  sp_success_url :: string
  sp_cancel_url :: string
  sp_client_reference_id :: string
  sp_metadata :: "(string \<times> string) list"

record stripe_api =
  customers_create :: "customer_create_params \<Rightarrow> error + string"
  checkout_sessions_create :: "session_create_params \<Rightarrow> error + string \<times> string option"

text \<open>\<open>x || undefined\<close> on an optional string.\<close>

definition orUndefined :: "string option \<Rightarrow> string option" where
  "orUndefined x = (case x of None \<Rightarrow> None | Some s \<Rightarrow> if s = [] then None else Some s)"

text \<open>A header in a template literal: an absent one prints as \<open>undefined\<close>.\<close>

definition template :: "string option \<Rightarrow> string" where
  "template x = (case x of None \<Rightarrow> ''undefined'' | Some s \<Rightarrow> s)"

text \<open>
  The block "Get or create Stripe customer" of \<open>createCheckoutSession\<close>: the customer
  id to use and the database after it (or the error raised, with the database as it is
  then).
\<close>

definition getOrCreateCustomer ::
    "stripe_api \<Rightarrow> nat \<Rightarrow> ctx \<Rightarrow> db \<Rightarrow> (error + string) \<times> db" where
  "getOrCreateCustomer stripe now c d =
     (case orUndefined (u_stripeCustomerId (ctx_user c)) of
        Some stripeCustomerId \<Rightarrow> (Inr stripeCustomerId, d)
      | None \<Rightarrow>
          (case customers_create stripe
                  \<lparr>cp_email = orUndefined (u_email (ctx_user c)),
                   cp_name = orUndefined (u_name (ctx_user c)),
                   cp_metadata = [(''user_id'', toString (u_id (ctx_user c)))]\<rparr> of
             Inl e \<Rightarrow> (Inl e, d)
           | Inr stripeCustomerId \<Rightarrow>
               (case update_user_stripeCustomerId now stripeCustomerId (u_id (ctx_user c)) d of
                  Inl e \<Rightarrow> (Inl e, d)
                | Inr d' \<Rightarrow> (Inr stripeCustomerId, d'))))"

definition checkout_params ::
    "ctx \<Rightarrow> int \<Rightarrow> string \<Rightarrow> service \<Rightarrow> string \<Rightarrow> session_create_params" where
  "checkout_params c appointmentId serviceId service stripeCustomerId =
     \<lparr>sp_customer = stripeCustomerId,
      sp_payment_method_types = [''card''],
      sp_line_items =
        [\<lparr>li_currency = svc_currency service, li_product_name = svc_name service,
          li_product_description = svc_description service,
          li_unit_amount = svc_price service, li_quantity = 1\<rparr>],
      sp_mode = ''payment'',
      sp_success_url =
        template (ctx_origin c) @ ''/chat?payment=success&appointment='' @ toString appointmentId,
      sp_cancel_url =
        template (ctx_origin c) @ ''/chat?payment=cancelled&appointment=''
          @ toString appointmentId,
      sp_client_reference_id = toString appointmentId,
      sp_metadata =
        [(''user_id'', toString (u_id (ctx_user c))),
         (''appointment_id'', toString appointmentId),
         (''service_id'', serviceId)]\<rparr>"

text \<open>\<open>stripe.createCheckoutSession\<close>: the reply is the session id and the checkout url.\<close>

definition createCheckoutSession ::
    "stripe_api \<Rightarrow> nat \<Rightarrow> ctx \<Rightarrow> int \<Rightarrow> string \<Rightarrow> store
      \<Rightarrow> (error + string \<times> string option) \<times> store" where
  "createCheckoutSession stripe now c appointmentId serviceId st =
     (case st of
        None \<Rightarrow> (Inl (Error ''Database not available''), st)
      | Some d \<Rightarrow>
          (case select_appointment appointmentId d of
             Inl e \<Rightarrow> (Inl e, st)
           | Inr [] \<Rightarrow> (Inl (Error ''Appointment not found''), st)
           | Inr (apt # rest) \<Rightarrow>
               if a_userId apt \<noteq> u_id (ctx_user c) then (Inl (Error ''Unauthorized''), st)
               else (case getServiceById serviceId of
                       None \<Rightarrow> (Inl (Error ''Service not found''), st)
                     | Some service \<Rightarrow>
                         (case getOrCreateCustomer stripe now c d of
                            (Inl e, d1) \<Rightarrow> (Inl e, Some d1)
                          | (Inr stripeCustomerId, d1) \<Rightarrow>
                              (case checkout_sessions_create stripe
                                      (checkout_params c appointmentId serviceId service
                                         stripeCustomerId) of
                                 Inl e \<Rightarrow> (Inl e, Some d1)
                               | Inr (sessionId, checkoutUrl) \<Rightarrow>
                                   (case update_appointments now
                                           (no_values
                                              \<lparr>set_stripeCheckoutSessionId := Some sessionId,
                                               set_priceInCents := Some (svc_price service)\<rparr>)
                                           appointmentId d1 of
                                      Inl e \<Rightarrow> (Inl e, Some d1)
                                    | Inr d2 \<Rightarrow> (Inr (sessionId, checkoutUrl), Some d2)))))))"

text \<open>\<open>stripe.getPaymentStatus\<close>: the reply is \<open>paymentStatus\<close>, \<open>appointmentStatus\<close> and
  \<open>priceInCents\<close> of the row.\<close>

definition getPaymentStatus ::
    "ctx \<Rightarrow> int \<Rightarrow> store
      \<Rightarrow> error + payment_status option \<times> appointment_status option \<times> int option" where
  "getPaymentStatus c appointmentId st =
     (case st of
        None \<Rightarrow> Inl (Error ''Database not available'')
      | Some d \<Rightarrow>
          (case select_appointment appointmentId d of
             Inl e \<Rightarrow> Inl e
           | Inr [] \<Rightarrow> Inl (Error ''Appointment not found'')
           | Inr (apt # rest) \<Rightarrow>
               if a_userId apt \<noteq> u_id (ctx_user c) then Inl (Error ''Unauthorized'')
               else Inr (a_paymentStatus apt, a_status apt, a_priceInCents apt)))"


section \<open>The correlation key of an event\<close>

text \<open>
  The event types that the webhook handles, and the field of the event's object that
  names the appointment: \<open>client_reference_id\<close> for a completed checkout session,
  \<open>metadata.appointment_id\<close> for the other three.
\<close>

definition handled_type :: "string \<Rightarrow> bool" where
  "handled_type ty =
     (ty = ''checkout.session.completed'' \<or> ty = ''payment_intent.succeeded''
      \<or> ty = ''payment_intent.payment_failed'' \<or> ty = ''charge.refunded'')"

definition correlation_key :: "event \<Rightarrow> string option" where
  "correlation_key ev =
     (if ev_type ev = ''checkout.session.completed''
      then client_reference_id (ev_object ev)
      else metadata_appointment_id (ev_object ev))"


text \<open>The rows of the appointments table in a store (none without a database).\<close>

definition appointment_rows :: "store \<Rightarrow> appointment list" where
  "appointment_rows st = (case st of None \<Rightarrow> [] | Some d \<Rightarrow> db_appointments d)"


section \<open>Example values\<close>

text \<open>Concrete inputs on which the theorems below are instantiated.\<close>

definition example_appointment :: appointment where
  "example_appointment =
     \<lparr>a_id = 7, a_userId = 1, a_conversationId = None, a_googleCalendarEventId = None,
      a_barberName = None, a_service = ''haircut'', a_duration = 30, a_scheduledAt = 500,
      a_status = Some Pending, a_paymentStatus = Some PaymentPending,
      a_stripePaymentIntentId = None, a_stripeCheckoutSessionId = None,
      a_priceInCents = None, a_notes = None, a_createdAt = 10, a_updatedAt = 10\<rparr>"

definition example_user :: "int \<Rightarrow> user" where
  "example_user i =
     \<lparr>u_id = i, u_openId = ''sample-user'', u_name = Some ''User'', u_email = None,
      u_loginMethod = Some ''manus'', u_role = UserRole, u_stripeCustomerId = None,
      u_createdAt = 1, u_updatedAt = 1, u_lastSignedIn = 1\<rparr>"

definition example_ctx :: "int \<Rightarrow> ctx" where
  "example_ctx i = \<lparr>ctx_user = example_user i, ctx_origin = Some ''http://localhost:3000''\<rparr>"

definition example_message :: "int \<Rightarrow> nat \<Rightarrow> message" where
  "example_message i t =
     \<lparr>m_id = i, m_conversationId = 3, m_role = MessageUser, m_content = ''hello'',
      m_metadata = None, m_createdAt = t\<rparr>"

definition example_conversation :: "int \<Rightarrow> conversation" where
  "example_conversation owner =
     \<lparr>c_id = 3, c_userId = owner, c_title = Some ''New Conversation'',
      c_status = Some ConversationActive, c_createdAt = 1, c_updatedAt = 1\<rparr>"

definition example_db :: db where
  "example_db =
     \<lparr>db_users = [example_user 1, example_user 2],
      db_conversations = [example_conversation 1],
      db_messages = [example_message 2 30, example_message 1 20],
      db_appointments = [example_appointment], db_trainingExamples = [], db_fault = None\<rparr>"

definition example_object :: "string option \<Rightarrow> stripe_object" where
  "example_object key =
     \<lparr>obj_id = ''cs_1'', client_reference_id = key,
      metadata = Some (case key of None \<Rightarrow> [] | Some k \<Rightarrow> [(''appointment_id'', k)])\<rparr>"

definition example_event :: "string \<Rightarrow> string \<Rightarrow> string option \<Rightarrow> event" where
  "example_event i ty key = \<lparr>ev_id = i, ev_type = ty, ev_object = example_object key\<rparr>"

text \<open>A stand-in for the library's verification: it accepts the signature that equals the
  secret and then yields the given event.\<close>

definition example_constructEvent :: "event \<Rightarrow> construct_event" where
  "example_constructEvent ev b signature secret =
     (if signature = secret then Inr ev
      else Inl ''No signatures found matching the expected signature for payload'')"

definition example_request :: "string option \<Rightarrow> request" where
  "example_request signature = \<lparr>stripe_signature = signature, body = ''{}''\<rparr>"

text \<open>A stand-in for the Stripe API that creates every object it is asked for.\<close>

definition example_stripe :: stripe_api where
  "example_stripe =
     \<lparr>customers_create = (\<lambda>p. Inr ''cus_1''),
      checkout_sessions_create = (\<lambda>p. Inr (''cs_1'', Some ''https://checkout.stripe.com/cs_1''))\<rparr>"


section \<open>Properties of the statements\<close>

lemma set_columns_id [simp]: "a_id (set_columns p a) = a_id a"
  by (simp add: set_columns_def)

lemma onUpdateNow_fields:
  "a_id (onUpdateNow now a b) = a_id b"
  "a_userId (onUpdateNow now a b) = a_userId b"
  "a_status (onUpdateNow now a b) = a_status b"
  "a_paymentStatus (onUpdateNow now a b) = a_paymentStatus b"
  "a_stripePaymentIntentId (onUpdateNow now a b) = a_stripePaymentIntentId b"
  "a_stripeCheckoutSessionId (onUpdateNow now a b) = a_stripeCheckoutSessionId b"
  "a_priceInCents (onUpdateNow now a b) = a_priceInCents b"
  by (simp_all add: onUpdateNow_def)

lemma set_columns_idem: "set_columns p (set_columns p a) = set_columns p a"
  by (simp add: set_columns_def split: option.splits)

lemma set_columns_updatedAt:
  "set_columns p (a\<lparr>a_updatedAt := t\<rparr>) = (set_columns p a)\<lparr>a_updatedAt := t\<rparr>"
  by (simp add: set_columns_def split: option.splits)

lemma onUpdateNow_idem:
  "onUpdateNow now' (onUpdateNow now a (set_columns p a))
     (set_columns p (onUpdateNow now a (set_columns p a))) = onUpdateNow now a (set_columns p a)"
  by (simp add: onUpdateNow_def set_columns_idem set_columns_updatedAt)

lemma update_appointments_idem:
  assumes "update_appointments now p n d = Inr d'"
  shows "update_appointments now' p n d' = Inr d'"
  using assms
  by (auto simp: update_appointments_def execute_def onUpdateNow_idem onUpdateNow_fields
           comp_def split: if_splits option.splits intro!: map_idI)

lemma update_appointments_Inl:
  "update_appointments now p n d = Inl e \<Longrightarrow> update_appointments now' p n d = Inl e"
  by (auto simp: update_appointments_def execute_def split: if_splits option.splits)

lemma set_value_not_empty:
  "p\<lparr>set_status := Some s\<rparr> \<noteq> no_values"
  "p\<lparr>set_paymentStatus := Some q\<rparr> \<noteq> no_values"
  "p\<lparr>set_priceInCents := Some i\<rparr> \<noteq> no_values"
  by (auto simp: no_values_def dest: arg_cong [where f = set_status]
        arg_cong [where f = set_paymentStatus] arg_cong [where f = set_priceInCents])


text \<open>
  The four handlers have one shape: without a database, or without a key that parses to
  a number other than zero, the store stays; otherwise one update is sent, and the store
  stays when it fails. A function of that shape, run again on the store it left, changes
  nothing.
\<close>

lemma guarded_update_idem:
  fixes h :: "nat \<Rightarrow> store \<Rightarrow> store"
  assumes shape: "\<And>t s. h t s =
      (case s of
         None \<Rightarrow> s
       | Some d \<Rightarrow>
           (case key of
              None \<Rightarrow> s
            | Some n \<Rightarrow>
                if n = 0 then s
                else (case update_appointments t p n d of Inl e \<Rightarrow> s | Inr d' \<Rightarrow> Some d')))"
  shows "h now' (h now st) = h now st"
proof (cases st)
  case None
  then show ?thesis by (simp add: shape)
next
  case (Some d)
  show ?thesis
  proof (cases key)
    case None
    with Some show ?thesis by (simp add: shape)
  next
    case k: (Some n)
    show ?thesis
    proof (cases "n = 0")
      case True
      with Some k show ?thesis by (simp add: shape)
    next
      case False
      show ?thesis
      proof (cases "update_appointments now p n d")
        case (Inl e)
        then have "update_appointments now' p n d = Inl e"
          by (rule update_appointments_Inl)
        with Inl Some k False show ?thesis by (simp add: shape)
      next
        case (Inr d')
        then have "update_appointments now' p n d' = Inr d'"
          by (rule update_appointments_idem)
        with Inr Some k False show ?thesis by (simp add: shape)
      qed
    qed
  qed
qed

lemma handlers_idempotent:
  "handleCheckoutSessionCompleted now' obj (handleCheckoutSessionCompleted now obj st)
     = handleCheckoutSessionCompleted now obj st"
  "handlePaymentIntentFailed now' obj (handlePaymentIntentFailed now obj st)
     = handlePaymentIntentFailed now obj st"
  "handleChargeRefunded now' obj (handleChargeRefunded now obj st)
     = handleChargeRefunded now obj st"
  by (rule guarded_update_idem, simp add: handleCheckoutSessionCompleted_def,
      rule guarded_update_idem, simp add: handlePaymentIntentFailed_def,
      rule guarded_update_idem, simp add: handleChargeRefunded_def)

lemma payment_intent_succeeded_twice:
  "handlePaymentIntentSucceeded now' obj (handlePaymentIntentSucceeded now obj st)
     = handlePaymentIntentSucceeded now obj st"
  by (rule guarded_update_idem) (simp add: handlePaymentIntentSucceeded_def)

lemma dispatch_idempotent:
  "dispatch now' ev (dispatch now ev st) = dispatch now ev st"
  by (simp add: dispatch_def handlers_idempotent payment_intent_succeeded_twice)

text \<open>
  What the endpoint does with a verified event: a test event (an id that starts with
  \<open>evt_test_\<close>) is answered with \<open>{ verified: true }\<close> and touches nothing; any other
  event is dispatched on its type and answered with \<open>{ received: true }\<close>.
\<close>

lemma webhook_test_event:
  assumes "stripe_signature req = Some signature" and "signature \<noteq> []"
    and "constructEvent (body req) signature webhookSecret = Inr ev"
    and "startsWith (ev_id ev) ''evt_test_''"
  shows "handleStripeWebhook constructEvent webhookSecret now req st
         = (\<lparr>res_status = 200, res_json = VerifiedJson True\<rparr>, st)"
  using assms by (simp add: handleStripeWebhook_def)

lemma webhook_runs_handler:
  assumes "stripe_signature req = Some signature" and "signature \<noteq> []"
    and "constructEvent (body req) signature webhookSecret = Inr ev"
    and "\<not> startsWith (ev_id ev) ''evt_test_''"
  shows "handleStripeWebhook constructEvent webhookSecret now req st
         = (\<lparr>res_status = 200, res_json = ReceivedJson True\<rparr>, dispatch now ev st)"
    and "ev_type ev = ''checkout.session.completed''
         \<Longrightarrow> dispatch now ev st = handleCheckoutSessionCompleted now (ev_object ev) st"
    and "ev_type ev = ''payment_intent.succeeded''
         \<Longrightarrow> dispatch now ev st = handlePaymentIntentSucceeded now (ev_object ev) st"
  using assms by (simp_all add: handleStripeWebhook_def dispatch_def)

lemma webhook_store_idempotent:
  "snd (handleStripeWebhook constructEvent webhookSecret now' req
          (snd (handleStripeWebhook constructEvent webhookSecret now req st)))
   = snd (handleStripeWebhook constructEvent webhookSecret now req st)"
  by (simp add: handleStripeWebhook_def dispatch_idempotent split: option.splits sum.splits)


section \<open>The webhook handlers\<close>

text \<open>
  The handler of a completed checkout session. Let the \<open>client_reference_id\<close> of the
  session parse to an appointment id \<open>n\<close> other than zero, and let the database be
  available with a connection that carries statements. Then the handler leaves a store
  whose appointments are those of before, row by row, where every row with id \<open>n\<close>,
  whatever its fields were, has \<open>paymentStatus\<close> completed, \<open>status\<close> confirmed and the
  session's id as \<open>stripeCheckoutSessionId\<close>, and every other row is as it was.
\<close>

lemma handler_confirms_rows:
  assumes "parseInt (orElse (client_reference_id session) ''0'') = Some n" and "n \<noteq> 0"
    and "db_fault d = None"
  shows "\<exists>d'. handleCheckoutSessionCompleted now session (Some d) = Some d'
           \<and> list_all2
                (\<lambda>a a'. if a_id a = n
                         then a_id a' = n
                              \<and> a_paymentStatus a' = Some PaymentCompleted
                              \<and> a_status a' = Some Confirmed
                              \<and> a_stripeCheckoutSessionId a' = Some (obj_id session)
                         else a' = a)
                (db_appointments d) (db_appointments d')"
proof -
  define p where "p = no_values\<lparr>set_paymentStatus := Some PaymentCompleted,
      set_stripeCheckoutSessionId := Some (obj_id session), set_status := Some Confirmed\<rparr>"
  define d' where "d' = d\<lparr>db_appointments :=
      map (\<lambda>a. if a_id a = n then onUpdateNow now a (set_columns p a) else a)
        (db_appointments d)\<rparr>"
  have "p \<noteq> no_values" by (simp add: p_def set_value_not_empty)
  then have "update_appointments now p n d = Inr d'"
    using assms(3) by (simp add: update_appointments_def execute_def d'_def)
  then have run: "handleCheckoutSessionCompleted now session (Some d) = Some d'"
    using assms(1,2) by (simp add: handleCheckoutSessionCompleted_def p_def)
  have "list_all2
          (\<lambda>a a'. if a_id a = n
                   then a_id a' = n
                        \<and> a_paymentStatus a' = Some PaymentCompleted
                        \<and> a_status a' = Some Confirmed
                        \<and> a_stripeCheckoutSessionId a' = Some (obj_id session)
                   else a' = a)
          (db_appointments d) (db_appointments d')"
    unfolding d'_def
    by (simp add: list_all2_map2 list.rel_refl_strong onUpdateNow_fields set_columns_def p_def)
  with run show ?thesis by blast
qed

text \<open>
  C1, as stated, fails for a test event. The event \<open>evt_test_1\<close> is verified, is of type
  \<open>checkout.session.completed\<close> and its \<open>client_reference_id\<close> parses to the appointment
  id 7; the database is available. The endpoint answers \<open>{ verified: true }\<close> before any
  dispatch, and appointment 7 stays pending and unpaid, without a session id.
\<close>

theorem checkout_completed_test_event_counterexample:
  "stripe_signature (example_request (Some ''whsec'')) = Some ''whsec''
   \<and> example_constructEvent
        (example_event ''evt_test_1'' ''checkout.session.completed'' (Some ''7''))
        (body (example_request (Some ''whsec''))) ''whsec'' ''whsec''
       = Inr (example_event ''evt_test_1'' ''checkout.session.completed'' (Some ''7''))
   \<and> ev_type (example_event ''evt_test_1'' ''checkout.session.completed'' (Some ''7''))
       = ''checkout.session.completed''
   \<and> parseInt (orElse (client_reference_id (ev_object
         (example_event ''evt_test_1'' ''checkout.session.completed'' (Some ''7'')))) ''0'')
       = Some 7
   \<and> db_fault example_db = None
   \<and> db_appointments example_db = [example_appointment]
   \<and> a_id example_appointment = 7
   \<and> a_status example_appointment = Some Pending
   \<and> a_paymentStatus example_appointment = Some PaymentPending
   \<and> a_stripeCheckoutSessionId example_appointment = None
   \<and> handleStripeWebhook
        (example_constructEvent
           (example_event ''evt_test_1'' ''checkout.session.completed'' (Some ''7'')))
        ''whsec'' 100 (example_request (Some ''whsec'')) (Some example_db)
       = (\<lparr>res_status = 200, res_json = VerifiedJson True\<rparr>, Some example_db)"
  by code_simp

text \<open>
  C1, amended. Let a verified event of type \<open>checkout.session.completed\<close> carry a
  \<open>client_reference_id\<close> that parses to an appointment id \<open>n\<close> other than zero, and let
  the database be available with a connection that carries statements. If the id of the
  event starts with \<open>evt_test_\<close>, the endpoint answers \<open>{ verified: true }\<close> and leaves the
  store as it was. Otherwise the endpoint answers \<open>{ received: true }\<close> and leaves a store
  whose appointments are those of before, row by row, where every row with id \<open>n\<close>,
  whatever its fields were, has \<open>paymentStatus\<close> completed, \<open>status\<close> confirmed and the
  session's id as \<open>stripeCheckoutSessionId\<close>, and every other row is as it was.
\<close>

theorem checkout_completed_event_confirms:
  assumes "stripe_signature req = Some signature" and "signature \<noteq> []"
    and "constructEvent (body req) signature webhookSecret = Inr ev"
    and "ev_type ev = ''checkout.session.completed''"
    and "parseInt (orElse (client_reference_id (ev_object ev)) ''0'') = Some n" and "n \<noteq> 0"
    and "db_fault d = None"
  shows "if startsWith (ev_id ev) ''evt_test_''
         then handleStripeWebhook constructEvent webhookSecret now req (Some d)
              = (\<lparr>res_status = 200, res_json = VerifiedJson True\<rparr>, Some d)
         else (\<exists>d'. handleStripeWebhook constructEvent webhookSecret now req (Some d)
                      = (\<lparr>res_status = 200, res_json = ReceivedJson True\<rparr>, Some d')
                 \<and> list_all2
                      (\<lambda>a a'. if a_id a = n
                               then a_id a' = n
                                    \<and> a_paymentStatus a' = Some PaymentCompleted
                                    \<and> a_status a' = Some Confirmed
                                    \<and> a_stripeCheckoutSessionId a'
                                        = Some (obj_id (ev_object ev))
                               else a' = a)
                      (db_appointments d) (db_appointments d'))"
proof (cases "startsWith (ev_id ev) ''evt_test_''")
  case True
  with assms(1-3) show ?thesis
    by (simp add: handleStripeWebhook_def)
next
  case False
  with assms(1-4)
  have "handleStripeWebhook constructEvent webhookSecret now req (Some d)
        = (\<lparr>res_status = 200, res_json = ReceivedJson True\<rparr>,
           handleCheckoutSessionCompleted now (ev_object ev) (Some d))"
    by (simp add: handleStripeWebhook_def dispatch_def)
  with handler_confirms_rows [OF assms(5-7), of now] False show ?thesis by auto
qed

text \<open>
  The theorem at the event \<open>evt_1\<close> for the pending, unpaid appointment 7; the store that
  the endpoint leaves is the one with the row confirmed and stamped.
\<close>

theorem checkout_completed_event_confirms_witness:
  "stripe_signature (example_request (Some ''whsec'')) = Some ''whsec''
   \<and> ''whsec'' \<noteq> []
   \<and> example_constructEvent (example_event ''evt_1'' ''checkout.session.completed'' (Some ''7''))
        (body (example_request (Some ''whsec''))) ''whsec'' ''whsec''
       = Inr (example_event ''evt_1'' ''checkout.session.completed'' (Some ''7''))
   \<and> ev_type (example_event ''evt_1'' ''checkout.session.completed'' (Some ''7''))
       = ''checkout.session.completed''
   \<and> parseInt (orElse (client_reference_id (ev_object
         (example_event ''evt_1'' ''checkout.session.completed'' (Some ''7'')))) ''0'') = Some 7
   \<and> db_fault example_db = None
   \<and> (\<exists>d'. handleStripeWebhook
               (example_constructEvent
                  (example_event ''evt_1'' ''checkout.session.completed'' (Some ''7'')))
               ''whsec'' 100 (example_request (Some ''whsec'')) (Some example_db)
              = (\<lparr>res_status = 200, res_json = ReceivedJson True\<rparr>, Some d')
            \<and> list_all2
                 (\<lambda>a a'. if a_id a = 7
                          then a_id a' = 7
                               \<and> a_paymentStatus a' = Some PaymentCompleted
                               \<and> a_status a' = Some Confirmed
                               \<and> a_stripeCheckoutSessionId a'
                                   = Some (obj_id (ev_object
                                       (example_event ''evt_1'' ''checkout.session.completed''
                                          (Some ''7''))))
                          else a' = a)
                 (db_appointments example_db) (db_appointments d'))
   \<and> handleStripeWebhook
        (example_constructEvent (example_event ''evt_1'' ''checkout.session.completed'' (Some ''7'')))
        ''whsec'' 100 (example_request (Some ''whsec'')) (Some example_db)
       = (\<lparr>res_status = 200, res_json = ReceivedJson True\<rparr>,
          Some (example_db\<lparr>db_appointments :=
                  [example_appointment\<lparr>a_status := Some Confirmed,
                     a_paymentStatus := Some PaymentCompleted,
                     a_stripeCheckoutSessionId := Some ''cs_1'', a_updatedAt := 100\<rparr>]\<rparr>))"
proof -
  let ?ev = "example_event ''evt_1'' ''checkout.session.completed'' (Some ''7'')"
  have header: "stripe_signature (example_request (Some ''whsec'')) = Some ''whsec''"
    by (simp add: example_request_def)
  have verified: "example_constructEvent ?ev (body (example_request (Some ''whsec'')))
      ''whsec'' ''whsec'' = Inr ?ev"
    by (simp add: example_constructEvent_def)
  have type: "ev_type ?ev = ''checkout.session.completed''"
    by (simp add: example_event_def)
  have key: "parseInt (orElse (client_reference_id (ev_object ?ev)) ''0'') = Some 7"
    by code_simp
  have up: "db_fault example_db = None"
    by (simp add: example_db_def)
  have plain: "\<not> startsWith (ev_id ?ev) ''evt_test_''"
    by code_simp
  have run: "handleStripeWebhook (example_constructEvent ?ev) ''whsec'' 100
        (example_request (Some ''whsec'')) (Some example_db)
       = (\<lparr>res_status = 200, res_json = ReceivedJson True\<rparr>,
          Some (example_db\<lparr>db_appointments :=
                  [example_appointment\<lparr>a_status := Some Confirmed,
                     a_paymentStatus := Some PaymentCompleted,
                     a_stripeCheckoutSessionId := Some ''cs_1'', a_updatedAt := 100\<rparr>]\<rparr>))"
    by code_simp
  from checkout_completed_event_confirms
      [where constructEvent = "example_constructEvent ?ev" and webhookSecret = "''whsec''"
         and req = "example_request (Some ''whsec'')" and signature = "''whsec''"
         and ev = ?ev and n = 7 and d = example_db and now = 100,
       OF header _ verified type key _ up]
    plain
  have "\<exists>d'. handleStripeWebhook (example_constructEvent ?ev) ''whsec'' 100
               (example_request (Some ''whsec'')) (Some example_db)
              = (\<lparr>res_status = 200, res_json = ReceivedJson True\<rparr>, Some d')
            \<and> list_all2
                 (\<lambda>a a'. if a_id a = 7
                          then a_id a' = 7
                               \<and> a_paymentStatus a' = Some PaymentCompleted
                               \<and> a_status a' = Some Confirmed
                               \<and> a_stripeCheckoutSessionId a' = Some (obj_id (ev_object ?ev))
                          else a' = a)
                 (db_appointments example_db) (db_appointments d')"
    by simp
  with header verified type key up run show ?thesis by simp
qed

text \<open>
  C2. Delivering the same payment-intent-succeeded object a second time, at any later
  server time, leaves the store exactly as the first delivery left it: every row of the
  appointments table, the \<open>updatedAt\<close> stamp included, is the same. This holds for every
  store (also without a database, or with a failing connection) and every object, for
  the handler and for the endpoint that receives the same request twice.
\<close>

theorem payment_intent_succeeded_idempotent:
  "handlePaymentIntentSucceeded now' paymentIntent
     (handlePaymentIntentSucceeded now paymentIntent st)
   = handlePaymentIntentSucceeded now paymentIntent st
   \<and> snd (handleStripeWebhook constructEvent webhookSecret now' req
            (snd (handleStripeWebhook constructEvent webhookSecret now req st)))
     = snd (handleStripeWebhook constructEvent webhookSecret now req st)"
  by (simp add: payment_intent_succeeded_twice webhook_store_idempotent)


section \<open>The webhook endpoint\<close>

text \<open>
  C3. When the \<open>stripe-signature\<close> header is absent (or empty), or the library rejects
  the signature, \<open>handleStripeWebhook\<close> answers with status 400 and leaves the store as it
  was.
\<close>

theorem invalid_signature_rejected:
  assumes "stripe_signature req = None \<or> stripe_signature req = Some []
           \<or> (\<exists>signature message. stripe_signature req = Some signature
                  \<and> constructEvent (body req) signature webhookSecret = Inl message)"
  shows "res_status (fst (handleStripeWebhook constructEvent webhookSecret now req st)) = 400
         \<and> snd (handleStripeWebhook constructEvent webhookSecret now req st) = st"
  using assms by (auto simp: handleStripeWebhook_def)

text \<open>The theorem at a request without the header, and at one with a signature that the
  verification rejects, both for an event that would confirm appointment 7.\<close>

theorem invalid_signature_rejected_witness:
  "stripe_signature (example_request None) = None
   \<and> res_status (fst (handleStripeWebhook
         (example_constructEvent (example_event ''evt_1'' ''checkout.session.completed'' (Some ''7'')))
         ''whsec'' 100 (example_request None) (Some example_db))) = 400
   \<and> snd (handleStripeWebhook
         (example_constructEvent (example_event ''evt_1'' ''checkout.session.completed'' (Some ''7'')))
         ''whsec'' 100 (example_request None) (Some example_db)) = Some example_db
   \<and> stripe_signature (example_request (Some ''forged'')) = Some ''forged''
   \<and> example_constructEvent (example_event ''evt_1'' ''checkout.session.completed'' (Some ''7''))
         (body (example_request (Some ''forged''))) ''forged'' ''whsec''
       = Inl ''No signatures found matching the expected signature for payload''
   \<and> res_status (fst (handleStripeWebhook
         (example_constructEvent (example_event ''evt_1'' ''checkout.session.completed'' (Some ''7'')))
         ''whsec'' 100 (example_request (Some ''forged'')) (Some example_db))) = 400
   \<and> snd (handleStripeWebhook
         (example_constructEvent (example_event ''evt_1'' ''checkout.session.completed'' (Some ''7'')))
         ''whsec'' 100 (example_request (Some ''forged'')) (Some example_db)) = Some example_db"
proof -
  have absent: "stripe_signature (example_request None) = None"
    by (simp add: example_request_def)
  have header: "stripe_signature (example_request (Some ''forged'')) = Some ''forged''"
    by (simp add: example_request_def)
  have rejected:
    "example_constructEvent (example_event ''evt_1'' ''checkout.session.completed'' (Some ''7''))
         (body (example_request (Some ''forged''))) ''forged'' ''whsec''
       = Inl ''No signatures found matching the expected signature for payload''"
    by (simp add: example_constructEvent_def)
  from header rejected
  have forged: "stripe_signature (example_request (Some ''forged'')) = None
      \<or> stripe_signature (example_request (Some ''forged'')) = Some []
      \<or> (\<exists>signature message.
            stripe_signature (example_request (Some ''forged'')) = Some signature
            \<and> example_constructEvent
                 (example_event ''evt_1'' ''checkout.session.completed'' (Some ''7''))
                 (body (example_request (Some ''forged''))) signature ''whsec'' = Inl message)"
    by blast
  from absent
  have missing: "stripe_signature (example_request None) = None
      \<or> stripe_signature (example_request None) = Some []
      \<or> (\<exists>signature message.
            stripe_signature (example_request None) = Some signature
            \<and> example_constructEvent
                 (example_event ''evt_1'' ''checkout.session.completed'' (Some ''7''))
                 (body (example_request None)) signature ''whsec'' = Inl message)"
    by blast
  note invalid_signature_rejected
      [where constructEvent = "example_constructEvent
               (example_event ''evt_1'' ''checkout.session.completed'' (Some ''7''))"
         and webhookSecret = "''whsec''" and now = 100 and st = "Some example_db"]
  from this [where req = "example_request None", OF missing]
    this [where req = "example_request (Some ''forged'')", OF forged]
    absent header rejected
  show ?thesis by blast
qed

text \<open>
  C4, as stated, fails for a test event. The event \<open>evt_test_1\<close> is verified, is of the
  handled type \<open>checkout.session.completed\<close> and has no \<open>client_reference_id\<close>; the
  endpoint answers \<open>{ verified: true }\<close>, not \<open>{ received: true }\<close>.
\<close>

theorem uncorrelated_test_event_counterexample:
  "stripe_signature (example_request (Some ''whsec'')) = Some ''whsec''
   \<and> example_constructEvent (example_event ''evt_test_1'' ''checkout.session.completed'' None)
        (body (example_request (Some ''whsec''))) ''whsec'' ''whsec''
       = Inr (example_event ''evt_test_1'' ''checkout.session.completed'' None)
   \<and> handled_type (ev_type (example_event ''evt_test_1'' ''checkout.session.completed'' None))
   \<and> correlation_key (example_event ''evt_test_1'' ''checkout.session.completed'' None) = None
   \<and> handleStripeWebhook
        (example_constructEvent (example_event ''evt_test_1'' ''checkout.session.completed'' None))
        ''whsec'' 100 (example_request (Some ''whsec'')) (Some example_db)
       = (\<lparr>res_status = 200, res_json = VerifiedJson True\<rparr>, Some example_db)
   \<and> res_json (fst (handleStripeWebhook
        (example_constructEvent (example_event ''evt_test_1'' ''checkout.session.completed'' None))
        ''whsec'' 100 (example_request (Some ''whsec'')) (Some example_db)))
       \<noteq> ReceivedJson True"
  by code_simp

text \<open>
  C4, amended. For every verified event of a handled type whose correlation key is
  missing or parses to zero or to no number, the endpoint leaves the store as it was and
  answers with status 200; the answer is \<open>{ received: true }\<close> unless the id of the event
  starts with \<open>evt_test_\<close>, in which case it is \<open>{ verified: true }\<close>.
\<close>

theorem uncorrelated_event_acknowledged:
  assumes "stripe_signature req = Some signature" and "signature \<noteq> []"
    and "constructEvent (body req) signature webhookSecret = Inr ev"
    and "handled_type (ev_type ev)"
    and "parseInt (orElse (correlation_key ev) ''0'') = None
         \<or> parseInt (orElse (correlation_key ev) ''0'') = Some 0"
  shows "handleStripeWebhook constructEvent webhookSecret now req st
         = (\<lparr>res_status = 200,
             res_json = (if startsWith (ev_id ev) ''evt_test_'' then VerifiedJson True
                         else ReceivedJson True)\<rparr>, st)"
proof -
  let ?key = "parseInt (orElse (correlation_key ev) ''0'')"
  have skip: "?key = None \<or> ?key = Some 0" by (rule assms(5))
  have "handleCheckoutSessionCompleted now (ev_object ev) st = st"
    if "ev_type ev = ''checkout.session.completed''"
    using skip that
    by (auto simp: handleCheckoutSessionCompleted_def correlation_key_def split: option.splits)
  moreover have "handlePaymentIntentSucceeded now (ev_object ev) st = st
      \<and> handlePaymentIntentFailed now (ev_object ev) st = st
      \<and> handleChargeRefunded now (ev_object ev) st = st"
    if "ev_type ev \<noteq> ''checkout.session.completed''"
    using skip that
    by (auto simp: handlePaymentIntentSucceeded_def handlePaymentIntentFailed_def
          handleChargeRefunded_def correlation_key_def split: option.splits)
  ultimately have "dispatch now ev st = st"
    by (simp add: dispatch_def)
  with assms(1-3) show ?thesis
    by (simp add: handleStripeWebhook_def)
qed

text \<open>The theorem at a payment-intent-succeeded event whose \<open>appointment_id\<close> is not a
  number, delivered under an ordinary event id.\<close>

theorem uncorrelated_event_acknowledged_witness:
  "stripe_signature (example_request (Some ''whsec'')) = Some ''whsec''
   \<and> ''whsec'' \<noteq> []
   \<and> example_constructEvent (example_event ''evt_1'' ''payment_intent.succeeded'' (Some ''abc''))
        (body (example_request (Some ''whsec''))) ''whsec'' ''whsec''
       = Inr (example_event ''evt_1'' ''payment_intent.succeeded'' (Some ''abc''))
   \<and> handled_type (ev_type (example_event ''evt_1'' ''payment_intent.succeeded'' (Some ''abc'')))
   \<and> parseInt (orElse (correlation_key
         (example_event ''evt_1'' ''payment_intent.succeeded'' (Some ''abc''))) ''0'') = None
   \<and> handleStripeWebhook
        (example_constructEvent (example_event ''evt_1'' ''payment_intent.succeeded'' (Some ''abc'')))
        ''whsec'' 100 (example_request (Some ''whsec'')) (Some example_db)
       = (\<lparr>res_status = 200, res_json = ReceivedJson True\<rparr>, Some example_db)"
proof -
  let ?ev = "example_event ''evt_1'' ''payment_intent.succeeded'' (Some ''abc'')"
  have header: "stripe_signature (example_request (Some ''whsec'')) = Some ''whsec''"
    by (simp add: example_request_def)
  have verified: "example_constructEvent ?ev (body (example_request (Some ''whsec'')))
      ''whsec'' ''whsec'' = Inr ?ev"
    by (simp add: example_constructEvent_def)
  have handled: "handled_type (ev_type ?ev)"
    by (simp add: handled_type_def example_event_def)
  have key: "parseInt (orElse (correlation_key ?ev) ''0'') = None"
    by code_simp
  have plain: "\<not> startsWith (ev_id ?ev) ''evt_test_''"
    by code_simp
  from uncorrelated_event_acknowledged
      [where constructEvent = "example_constructEvent ?ev" and webhookSecret = "''whsec''"
         and req = "example_request (Some ''whsec'')" and signature = "''whsec''"
         and ev = ?ev and now = 100 and st = "Some example_db",
       OF header _ verified handled disjI1 [OF key]]
    plain header verified handled key
  show ?thesis by simp
qed


section \<open>The writers of the appointments table\<close>

lemma update_appointments_rows:
  assumes "update_appointments now p n d = Inr d'"
  shows "db_appointments d'
         = map (\<lambda>a. if a_id a = n then onUpdateNow now a (set_columns p a) else a)
             (db_appointments d)"
  using assms
  by (auto simp: update_appointments_def execute_def split: if_splits option.splits)

lemma getOrCreateCustomer_rows:
  "db_appointments (snd (getOrCreateCustomer stripe now c d)) = db_appointments d"
  by (auto simp: getOrCreateCustomer_def update_user_stripeCustomerId_def execute_def
        split: option.splits sum.splits)

lemma checkout_columns_only:
  "onUpdateNow now a
     (set_columns (no_values\<lparr>set_stripeCheckoutSessionId := Some s, set_priceInCents := Some i\<rparr>) a)
   = a\<lparr>a_stripeCheckoutSessionId :=
          a_stripeCheckoutSessionId (onUpdateNow now a
            (set_columns (no_values\<lparr>set_stripeCheckoutSessionId := Some s,
                                      set_priceInCents := Some i\<rparr>) a)),
        a_priceInCents :=
          a_priceInCents (onUpdateNow now a
            (set_columns (no_values\<lparr>set_stripeCheckoutSessionId := Some s,
                                      set_priceInCents := Some i\<rparr>) a)),
        a_updatedAt :=
          a_updatedAt (onUpdateNow now a
            (set_columns (no_values\<lparr>set_stripeCheckoutSessionId := Some s,
                                      set_priceInCents := Some i\<rparr>) a))\<rparr>"
  by (simp add: onUpdateNow_def set_columns_def no_values_def)

lemma createCheckoutSession_rows:
  "list_all2
     (\<lambda>a a'. a' = a\<lparr>a_stripeCheckoutSessionId := a_stripeCheckoutSessionId a',
                      a_priceInCents := a_priceInCents a', a_updatedAt := a_updatedAt a'\<rparr>)
     (appointment_rows st)
     (appointment_rows (snd (createCheckoutSession stripe now c appointmentId serviceId st)))"
proof (cases st)
  case None
  then show ?thesis by (simp add: createCheckoutSession_def appointment_rows_def)
next
  case (Some d)
  let ?R = "\<lambda>a a'. a' = a\<lparr>a_stripeCheckoutSessionId := a_stripeCheckoutSessionId a',
                a_priceInCents := a_priceInCents a', a_updatedAt := a_updatedAt a'\<rparr>"
  have same: "list_all2 ?R (db_appointments d) (db_appointments d)"
    by (simp add: list.rel_refl)
  have customer: "list_all2 ?R (db_appointments d)
      (db_appointments (snd (getOrCreateCustomer stripe now c d)))"
    using same by (simp add: getOrCreateCustomer_rows)
  have written: "list_all2 ?R (db_appointments d) (db_appointments d2)"
    if "update_appointments now
          (no_values\<lparr>set_stripeCheckoutSessionId := Some s, set_priceInCents := Some i\<rparr>)
          appointmentId (snd (getOrCreateCustomer stripe now c d)) = Inr d2" for s i d2
  proof -
    have "list_all2 ?R (db_appointments d)
        (map (\<lambda>a. if a_id a = appointmentId
                   then onUpdateNow now a
                          (set_columns (no_values\<lparr>set_stripeCheckoutSessionId := Some s,
                                                    set_priceInCents := Some i\<rparr>) a)
                   else a) (db_appointments d))"
      unfolding list_all2_map2
      by (rule list.rel_refl) (use checkout_columns_only in auto)
    then show ?thesis
      using update_appointments_rows [OF that] by (simp add: getOrCreateCustomer_rows)
  qed
  show ?thesis
    using Some same customer written
    by (auto simp: createCheckoutSession_def appointment_rows_def
          split: sum.splits list.splits option.splits prod.splits)
qed

lemma appointments_update_rows:
  "list_all2
     (\<lambda>a a'. a_paymentStatus a' = a_paymentStatus a
              \<and> a_status a'
                  = (if a_id a = appointmentId \<and> status \<noteq> None
                        \<and> fst (appointments_update now c appointmentId status scheduledAt st)
                            = Inr True
                     then status else a_status a))
     (appointment_rows st)
     (appointment_rows (snd (appointments_update now c appointmentId status scheduledAt st)))"
proof (cases st)
  case None
  then show ?thesis
    by (simp add: appointments_update_def updateAppointment_def appointment_rows_def)
next
  case (Some d)
  let ?p = "no_values\<lparr>set_status := status, set_scheduledAt := scheduledAt\<rparr>"
  show ?thesis
  proof (cases "update_appointments now ?p appointmentId d")
    case (Inl e)
    with Some show ?thesis
      by (simp add: appointments_update_def updateAppointment_def appointment_rows_def
            list.rel_refl)
  next
    case (Inr d')
    have "a_paymentStatus (set_columns ?p a) = a_paymentStatus a
        \<and> a_status (set_columns ?p a) = (if status \<noteq> None then status else a_status a)" for a
      by (auto simp: set_columns_def no_values_def)
    then show ?thesis
      using Some Inr update_appointments_rows [OF Inr]
      by (simp add: appointments_update_def updateAppointment_def appointment_rows_def
            list_all2_map2 list.rel_refl onUpdateNow_fields)
  qed
qed

lemma appointments_create_rows:
  "\<exists>new. appointment_rows
            (snd (appointments_create now c service duration scheduledAt barberName notes st))
          = appointment_rows st @ new
        \<and> list_all (\<lambda>a. a_status a = Some Pending \<and> a_paymentStatus a = Some PaymentPending) new"
proof (cases st)
  case None
  then show ?thesis
    by (simp add: appointments_create_def createAppointment_def appointment_rows_def)
next
  case (Some d)
  show ?thesis
  proof (cases "db_fault d")
    case None
    with Some show ?thesis
      by (simp add: appointments_create_def createAppointment_def appointment_rows_def
            execute_def Let_def new_appointment_def)
  next
    case fault: (Some msg)
    with Some show ?thesis
      by (simp add: appointments_create_def createAppointment_def appointment_rows_def
            execute_def Let_def)
  qed
qed

text \<open>
  C5, as stated, fails: \<open>appointments.update\<close> is no webhook handler, and a call that
  names a status moves the \<open>status\<close> of the appointment to it. Here the pending
  appointment 7 becomes confirmed although no payment event was processed.
\<close>

theorem status_set_by_update_counterexample:
  "a_status example_appointment = Some Pending
   \<and> appointments_update 100 (example_ctx 1) 7 (Some Confirmed) None (Some example_db)
       = (Inr True,
          Some (example_db\<lparr>db_appointments :=
                  [example_appointment\<lparr>a_status := Some Confirmed, a_updatedAt := 100\<rparr>]\<rparr>))"
  by code_simp

text \<open>
  C5, amended. Outside the webhook handlers the appointments table has three writers,
  and for every call of each, on every store:
  \<^item> \<open>createCheckoutSession\<close> leaves every row as it was but for
    \<open>stripeCheckoutSessionId\<close>, \<open>priceInCents\<close> and the \<open>updatedAt\<close> stamp, so it never
    writes \<open>status\<close> or \<open>paymentStatus\<close>;
  \<^item> \<open>appointments.update\<close> never changes \<open>paymentStatus\<close>, and changes \<open>status\<close> only
    when the call names a status and succeeds, then to that status on the rows with the
    given id; a call that names no status leaves every \<open>status\<close> as it was;
  \<^item> \<open>appointments.create\<close> leaves the rows as they were and adds at most new rows that
    are pending and unpaid.
\<close>

theorem status_fields_writers:
  "list_all2
     (\<lambda>a a'. a' = a\<lparr>a_stripeCheckoutSessionId := a_stripeCheckoutSessionId a',
                      a_priceInCents := a_priceInCents a', a_updatedAt := a_updatedAt a'\<rparr>
              \<and> a_status a' = a_status a \<and> a_paymentStatus a' = a_paymentStatus a)
     (appointment_rows st)
     (appointment_rows (snd (createCheckoutSession stripe now c appointmentId serviceId st)))
   \<and> list_all2
       (\<lambda>a a'. a_paymentStatus a' = a_paymentStatus a
                \<and> a_status a'
                    = (if a_id a = appointmentId \<and> status \<noteq> None
                          \<and> fst (appointments_update now c appointmentId status scheduledAt st)
                              = Inr True
                       then status else a_status a))
       (appointment_rows st)
       (appointment_rows (snd (appointments_update now c appointmentId status scheduledAt st)))
   \<and> (\<exists>new. appointment_rows
               (snd (appointments_create now c service duration scheduledAt' barberName notes st))
             = appointment_rows st @ new
           \<and> list_all (\<lambda>a. a_status a = Some Pending \<and> a_paymentStatus a = Some PaymentPending)
               new)"
proof -
  have "list_all2
     (\<lambda>a a'. a' = a\<lparr>a_stripeCheckoutSessionId := a_stripeCheckoutSessionId a',
                      a_priceInCents := a_priceInCents a', a_updatedAt := a_updatedAt a'\<rparr>
              \<and> a_status a' = a_status a \<and> a_paymentStatus a' = a_paymentStatus a)
     (appointment_rows st)
     (appointment_rows (snd (createCheckoutSession stripe now c appointmentId serviceId st)))"
  proof (rule list_all2_mono [OF createCheckoutSession_rows])
    fix a a' :: appointment
    assume eq: "a' = a\<lparr>a_stripeCheckoutSessionId := a_stripeCheckoutSessionId a',
        a_priceInCents := a_priceInCents a', a_updatedAt := a_updatedAt a'\<rparr>"
    have "a_status a' = a_status a \<and> a_paymentStatus a' = a_paymentStatus a"
      by (subst eq, subst (2) eq) simp
    with eq show "a' = a\<lparr>a_stripeCheckoutSessionId := a_stripeCheckoutSessionId a',
        a_priceInCents := a_priceInCents a', a_updatedAt := a_updatedAt a'\<rparr>
        \<and> a_status a' = a_status a \<and> a_paymentStatus a' = a_paymentStatus a"
      by blast
  qed
  then show ?thesis
    using appointments_update_rows appointments_create_rows by blast
qed


text \<open>The theorem at the owner's checkout for appointment 7: the row keeps its pending
  status and payment status, and gains the session id and the price of the haircut.\<close>

theorem status_fields_writers_witness:
  "list_all2
     (\<lambda>a a'. a' = a\<lparr>a_stripeCheckoutSessionId := a_stripeCheckoutSessionId a',
                      a_priceInCents := a_priceInCents a', a_updatedAt := a_updatedAt a'\<rparr>
              \<and> a_status a' = a_status a \<and> a_paymentStatus a' = a_paymentStatus a)
     (appointment_rows (Some example_db))
     (appointment_rows
        (snd (createCheckoutSession example_stripe 100 (example_ctx 1) 7 ''haircut''
                (Some example_db))))
   \<and> appointment_rows
        (snd (createCheckoutSession example_stripe 100 (example_ctx 1) 7 ''haircut''
                (Some example_db)))
       = [example_appointment\<lparr>a_stripeCheckoutSessionId := Some ''cs_1'',
            a_priceInCents := Some 2500, a_updatedAt := 100\<rparr>]"
proof -
  have "appointment_rows
        (snd (createCheckoutSession example_stripe 100 (example_ctx 1) 7 ''haircut''
                (Some example_db)))
       = [example_appointment\<lparr>a_stripeCheckoutSessionId := Some ''cs_1'',
            a_priceInCents := Some 2500, a_updatedAt := 100\<rparr>]"
    by code_simp
  with status_fields_writers
      [where st = "Some example_db" and stripe = example_stripe and now = 100
         and c = "example_ctx 1" and appointmentId = 7 and serviceId = "''haircut''"]
  show ?thesis by blast
qed


section \<open>Ownership\<close>

text \<open>
  C6. The code does not do what the claim says: \<open>appointments.update\<close> never looks at
  the caller. User 2 cancels appointment 7, which user 1 owns, and the call succeeds and
  rewrites the row.
\<close>

theorem update_of_foreign_appointment:
  "a_userId example_appointment = 1
   \<and> u_id (ctx_user (example_ctx 2)) = 2
   \<and> appointments_update 100 (example_ctx 2) 7 (Some Cancelled) None (Some example_db)
       = (Inr True,
          Some (example_db\<lparr>db_appointments :=
                  [example_appointment\<lparr>a_status := Some Cancelled, a_updatedAt := 100\<rparr>]\<rparr>))"
  by code_simp

text \<open>The reply and the store after \<open>appointments.update\<close> are the same for every
  caller.\<close>

lemma appointments_update_ignores_caller:
  "appointments_update now c appointmentId status scheduledAt st
   = appointments_update now c' appointmentId status scheduledAt st"
  by (simp add: appointments_update_def)

lemma select_own_row:
  assumes "distinct (map a_id rows)" and "apt \<in> set rows"
  shows "filter (\<lambda>a. a_id a = a_id apt) rows = [apt]"
  using assms
proof (induction rows)
  case Nil
  then show ?case by simp
next
  case (Cons r rows)
  show ?case
  proof (cases "r = apt")
    case True
    with Cons.prems(1) have "\<forall>a \<in> set rows. a_id a \<noteq> a_id apt"
      by (auto simp: image_iff)
    then have "filter (\<lambda>a. a_id a = a_id apt) rows = []"
      by (simp add: filter_empty_conv)
    with True show ?thesis by simp
  next
    case False
    with Cons.prems have "apt \<in> set rows" and "a_id r \<noteq> a_id apt"
      by (auto simp: image_iff)
    with Cons show ?thesis by simp
  qed
qed

text \<open>
  C7. Let the database be available with a working connection, its appointment ids
  distinct (\<open>id\<close> is the primary key), and let an appointment of it belong to a user
  other than the caller. Then \<open>createCheckoutSession\<close> for that appointment fails with
  the error \<open>Unauthorized\<close> and leaves the store as it was, whatever the service and the
  Stripe API, and \<open>getPaymentStatus\<close>, a read, fails with the same error.
\<close>

theorem foreign_appointment_unauthorized:
  assumes "db_fault d = None" and "distinct (map a_id (db_appointments d))"
    and "apt \<in> set (db_appointments d)" and "a_userId apt \<noteq> u_id (ctx_user c)"
  shows "createCheckoutSession stripe now c (a_id apt) serviceId (Some d)
           = (Inl (Error ''Unauthorized''), Some d)
         \<and> getPaymentStatus c (a_id apt) (Some d) = Inl (Error ''Unauthorized'')"
proof -
  have "select_appointment (a_id apt) d = Inr [apt]"
    using assms(1) select_own_row [OF assms(2,3)]
    by (simp add: select_appointment_def execute_def)
  with assms(4) show ?thesis
    by (simp add: createCheckoutSession_def getPaymentStatus_def)
qed

text \<open>The theorem at user 2 asking for appointment 7 of user 1.\<close>

theorem foreign_appointment_unauthorized_witness:
  "db_fault example_db = None
   \<and> distinct (map a_id (db_appointments example_db))
   \<and> example_appointment \<in> set (db_appointments example_db)
   \<and> a_userId example_appointment \<noteq> u_id (ctx_user (example_ctx 2))
   \<and> createCheckoutSession example_stripe 100 (example_ctx 2) 7 ''haircut'' (Some example_db)
       = (Inl (Error ''Unauthorized''), Some example_db)
   \<and> getPaymentStatus (example_ctx 2) 7 (Some example_db) = Inl (Error ''Unauthorized'')"
proof -
  have up: "db_fault example_db = None"
    and key: "distinct (map a_id (db_appointments example_db))"
    and row: "example_appointment \<in> set (db_appointments example_db)"
    by (simp_all add: example_db_def)
  have other: "a_userId example_appointment \<noteq> u_id (ctx_user (example_ctx 2))"
    by (simp add: example_appointment_def example_ctx_def example_user_def)
  have seven: "a_id example_appointment = 7"
    by (simp add: example_appointment_def)
  from foreign_appointment_unauthorized
      [OF up key row other, of example_stripe 100 "''haircut''"]
    up key row other seven
  show ?thesis by simp
qed


section \<open>Roles\<close>

text \<open>
  C8. For a caller whose role is not admin, \<open>appointments.listAll\<close>,
  \<open>training.getExamples\<close>, \<open>training.createExample\<close> and \<open>training.updateExample\<close> fail
  with the error code \<open>FORBIDDEN\<close>, whatever the input and the store (also without a
  database), and the two mutations leave the store as it was.
\<close>

theorem non_admin_forbidden:
  assumes "u_role (ctx_user c) \<noteq> AdminRole"
  shows "appointments_listAll c st = Inl (TRPCError ''FORBIDDEN'')
         \<and> training_getExamples c st = Inl (TRPCError ''FORBIDDEN'')
         \<and> training_createExample now c userMessage assistantResponse category q st
             = (Inl (TRPCError ''FORBIDDEN''), st)
         \<and> training_updateExample now c exampleId q' active st
             = (Inl (TRPCError ''FORBIDDEN''), st)"
  using assms
  by (simp add: appointments_listAll_def training_getExamples_def training_createExample_def
        training_updateExample_def)

text \<open>The theorem at a caller with the role user.\<close>

theorem non_admin_forbidden_witness:
  "u_role (ctx_user (example_ctx 1)) \<noteq> AdminRole
   \<and> appointments_listAll (example_ctx 1) (Some example_db) = Inl (TRPCError ''FORBIDDEN'')
   \<and> training_getExamples (example_ctx 1) (Some example_db) = Inl (TRPCError ''FORBIDDEN'')
   \<and> training_createExample 100 (example_ctx 1) ''hi'' ''hello'' ''booking'' None
        (Some example_db)
       = (Inl (TRPCError ''FORBIDDEN''), Some example_db)
   \<and> training_updateExample 100 (example_ctx 1) 1 (Some Poor) (Some True) (Some example_db)
       = (Inl (TRPCError ''FORBIDDEN''), Some example_db)"
proof -
  have role: "u_role (ctx_user (example_ctx 1)) \<noteq> AdminRole"
    by (simp add: example_ctx_def example_user_def)
  from non_admin_forbidden
      [OF role, of "Some example_db" 100 "''hi''" "''hello''" "''booking''" None 1
         "Some Poor" "Some True"]
    role
  show ?thesis by simp
qed


section \<open>The service catalogue\<close>

lemma same_letter_lower:
  assumes "same_letter c d"
  shows "lower_char c = lower_char d"
proof -
  have up: "lower_char y = y \<and> lower_char x = y"
    if "isUpper x" "(of_char y :: nat) = of_char x + 32" for x y
  proof -
    have "\<not> isUpper y"
      using that by (auto simp: isUpper_def Let_def)
    moreover have "char_of ((of_char x :: nat) + 32) = y"
      using that(2) by (metis char_of_char)
    ultimately show ?thesis
      using that(1) by (simp add: lower_char_def)
  qed
  from assms consider "c = d" | "isUpper c" "(of_char d :: nat) = of_char c + 32"
    | "isUpper d" "(of_char c :: nat) = of_char d + 32"
    by (auto simp: same_letter_def)
  then show ?thesis
  proof cases
    case 1
    then show ?thesis by simp
  next
    case 2
    then show ?thesis using up [of c d] by simp
  next
    case 3
    then show ?thesis using up [of d c] by simp
  qed
qed

lemma letter_case_lower:
  assumes "letter_case_of s t"
  shows "toLowerCase s = toLowerCase t"
  using assms unfolding letter_case_of_def toLowerCase_def
  by (induction rule: list_all2_induct) (simp_all add: same_letter_lower)

lemma getServiceByName_lower:
  "toLowerCase s = toLowerCase t \<Longrightarrow> getServiceByName s = getServiceByName t"
  by (simp add: getServiceByName_def)

lemma getServiceByName_own_name:
  "getServiceByName (svc_name HAIRCUT) = Some HAIRCUT"
  "getServiceByName (svc_name HAIR_AND_EYEBROW) = Some HAIR_AND_EYEBROW"
  "getServiceByName (svc_name FULL_SERVICE) = Some FULL_SERVICE"
  by code_simp+

text \<open>
  C9. \<open>formatPrice(2500)\<close> is \<open>$25.00\<close>; \<open>getServiceById("haircut")\<close> is the haircut
  service; and for every service of the catalogue, \<open>getServiceByName\<close> returns that
  service for its name written in any letter case.
\<close>

theorem catalogue_lookups:
  "formatPrice 2500 = ''$25.00''
   \<and> getServiceById ''haircut'' = Some HAIRCUT
   \<and> (\<forall>service \<in> set getAllServices. \<forall>name.
         letter_case_of name (svc_name service) \<longrightarrow> getServiceByName name = Some service)"
proof -
  have price: "formatPrice 2500 = ''$25.00''"
    by code_simp
  have by_id: "getServiceById ''haircut'' = Some HAIRCUT"
    by code_simp
  have "getServiceByName name = Some service"
    if "service \<in> set getAllServices" "letter_case_of name (svc_name service)"
    for service name
  proof -
    have "getServiceByName name = getServiceByName (svc_name service)"
      using that(2) by (intro getServiceByName_lower letter_case_lower)
    moreover have "getServiceByName (svc_name service) = Some service"
      using that(1) getServiceByName_own_name by (auto simp: getAllServices_def)
    ultimately show ?thesis by simp
  qed
  with price by_id show ?thesis by blast
qed

text \<open>The theorem at the name of the third service in capitals, cedilla included.\<close>

theorem catalogue_lookups_witness:
  "FULL_SERVICE \<in> set getAllServices
   \<and> letter_case_of (''SERVI'' @ [CHR 0xC7] @ ''O COMPLETO'') (svc_name FULL_SERVICE)
   \<and> getServiceByName (''SERVI'' @ [CHR 0xC7] @ ''O COMPLETO'') = Some FULL_SERVICE
   \<and> formatPrice 2500 = ''$25.00''
   \<and> getServiceById ''haircut'' = Some HAIRCUT"
proof -
  have member: "FULL_SERVICE \<in> set getAllServices"
    by (simp add: getAllServices_def)
  have upper: "letter_case_of (''SERVI'' @ [CHR 0xC7] @ ''O COMPLETO'') (svc_name FULL_SERVICE)"
    by code_simp
  from catalogue_lookups member upper show ?thesis by blast
qed


section \<open>Messages\<close>

text \<open>
  C10. \<open>chat.getMessages\<close> returns the messages of the conversation with the given id,
  in the order of their creation, and nothing of the reply depends on who asks or on
  who owns the conversation: the reply is the same for every caller and for every
  content of the conversations table.
\<close>

theorem getMessages_ignores_owner:
  "chat_getMessages c conversationId (Some (d\<lparr>db_conversations := cs\<rparr>))
     = chat_getMessages c' conversationId (Some d)
   \<and> chat_getMessages c conversationId (Some d)
       = execute d (sort_key m_createdAt
                      (filter (\<lambda>m. m_conversationId m = conversationId) (db_messages d)))
   \<and> chat_getMessages c conversationId None = Inr []"
  by (simp add: chat_getMessages_def getMessagesByConversationId_def execute_def)

text \<open>The theorem at user 2 reading conversation 3, which user 1 owns: the reply is the
  two stored messages, oldest first, the same that user 1 gets.\<close>

theorem getMessages_ignores_owner_witness:
  "c_userId (example_conversation 1) \<noteq> u_id (ctx_user (example_ctx 2))
   \<and> db_conversations example_db = [example_conversation 1]
   \<and> chat_getMessages (example_ctx 2) 3 (Some example_db)
       = Inr [example_message 1 20, example_message 2 30]
   \<and> chat_getMessages (example_ctx 2) 3 (Some example_db)
       = chat_getMessages (example_ctx 1) 3 (Some example_db)"
proof -
  have other: "c_userId (example_conversation 1) \<noteq> u_id (ctx_user (example_ctx 2))"
    by (simp add: example_conversation_def example_ctx_def example_user_def)
  have owned: "db_conversations example_db = [example_conversation 1]"
    by (simp add: example_db_def)
  have reply: "chat_getMessages (example_ctx 2) 3 (Some example_db)
       = Inr [example_message 1 20, example_message 2 30]"
    by code_simp
  from getMessages_ignores_owner
      [where c = "example_ctx 2" and conversationId = 3 and d = example_db
         and cs = "db_conversations example_db" and c' = "example_ctx 1"]
  have "chat_getMessages (example_ctx 2) 3 (Some example_db)
       = chat_getMessages (example_ctx 1) 3 (Some example_db)"
    by simp
  with other owned reply show ?thesis by simp
qed


end
